theory Spec2Isabelle
  imports Complex_Main "HOL-Library.Word"
begin

unbundle bit_operations_syntax

section \<open>The texture subsystem of opengl.c\<close>

text \<open>
  A shallow embedding of \<^verbatim>\<open>src/opengl.c\<close>: the texture list with its usage
  counts, image loading with power-of-two padding, the transparency map, the blit
  entry points with their texel addressing, and the viewport set-up at the end of
  \<^verbatim>\<open>gl_init\<close>.

  Conventions of the model.
  \<^item> A C \<^verbatim>\<open>double\<close> is a \<^typ>\<open>real\<close>: the formulas are the source's, rounding is
    not modelled. Where an argument of the caller makes the code store an infinity
    or a NaN (the division by the sheet size in \<^verbatim>\<open>gl_newSprite\<close>) the model has no
    value and stops with an error. \<^verbatim>\<open>gl_getSpriteFromDir\<close>, whose result is decided
    by the rounding of doubles, is left out.
  \<^item> A C \<^verbatim>\<open>int\<close> is an \<^typ>\<open>int\<close>; division and remainder truncate towards zero
    (\<open>c_div\<close>, \<open>c_mod\<close>). Overflow is written out where the control flow depends on
    it (the shift of \<^verbatim>\<open>gl_pot\<close>, the conversion of a double to an int).
  \<^item> A pointer is an \<^typ>\<open>nat option\<close>, \<open>None\<close> being \<^verbatim>\<open>NULL\<close>. Texture
    structures live in a store indexed by address, so that two holders of one
    pointer see each other's writes.
  \<^item> The singly linked \<^verbatim>\<open>texture_list\<close> is a HOL list of its nodes in link order.
  \<^item> Calls that leave the program (OpenGL, \<^verbatim>\<open>free\<close>, the log macros) are recorded
    in order in a trace. \<^verbatim>\<open>free\<close> of a texture structure also removes its cell
    from the store: reading through a pointer to a freed structure is undefined in C,
    and an error of the model (\<open>Use_after_free\<close>).
  \<^item> Where the C program would stop (a \<^verbatim>\<open>NULL\<close> dereference, a division by zero)
    the model returns \<open>Inl\<close> of an error.
  \<^item> \<^verbatim>\<open>malloc\<close> returns an address it has not returned before and succeeds, except
    at the one place where the source tests its result (the row buffer of
    \<^verbatim>\<open>SDL_VFlipSurface\<close>).
  \<^item> Field names carry a prefix (\<open>tex_\<close>, \<open>surf_\<close>, \<open>scr_\<close>, \<open>node_\<close>), since the
    source's one-letter field names would capture the variables of every statement.
\<close>

subsection \<open>C arithmetic\<close>

definition INT_MAX :: int where
  "INT_MAX = 2147483647"


datatype gl_error =
    Null_dereference | Wild_pointer | Use_after_free | Out_of_bounds | Division_by_zero
  | Undefined_conversion | Undefined_shift | Non_finite_double

definition c_div :: "int \<Rightarrow> int \<Rightarrow> int" where
  "c_div a b = sgn a * sgn b * (\<bar>a\<bar> div \<bar>b\<bar>)"



subsection \<open>Data\<close>

type_synonym addr = nat
type_synonym Uint8 = "8 word"
type_synonym Uint32 = "32 word"
type_synonym GLuint = nat

text \<open>Modelled from the spec: the structure \<^verbatim>\<open>glTexture\<close> is declared in opengl.h,
  which is not among the sources. Its fields are those of the specification's
  TextureResource under the names that opengl.c uses: logical size \<^verbatim>\<open>w h\<close>, physical
  size \<^verbatim>\<open>rw rh\<close>, sheet columns and rows \<^verbatim>\<open>sx sy\<close>, cell size \<^verbatim>\<open>sw sh\<close> (all doubles),
  the GPU handle \<^verbatim>\<open>texture\<close>, the transparency bits \<^verbatim>\<open>trans\<close> and the identity
  \<^verbatim>\<open>name\<close> (both may be \<^verbatim>\<open>NULL\<close>).\<close>

record glTexture =
  tex_w :: real
  tex_h :: real
  tex_rw :: real
  tex_rh :: real
  tex_sx :: real
  tex_sy :: real
  tex_sw :: real
  tex_sh :: real
  tex_texture :: GLuint
  tex_trans :: "Uint8 list option"
  tex_name :: "string option"

text \<open>\<^verbatim>\<open>glTexList\<close>: the \<^verbatim>\<open>next\<close> link is the position in the list.\<close>

record glTexList =
  node_tex :: "addr option"
  node_used :: int

text \<open>Modelled from the spec: the structure \<^verbatim>\<open>glInfo\<close> and the macros \<^verbatim>\<open>SCREEN_W\<close>,
  \<^verbatim>\<open>SCREEN_H\<close> are declared in opengl.h, which is not among the sources. These are the
  fields of the specification's viewport state that opengl.c reads and writes: the
  logical size \<^verbatim>\<open>w h\<close> (which \<^verbatim>\<open>SCREEN_W\<close> and \<^verbatim>\<open>SCREEN_H\<close> stand for), the native size
  \<^verbatim>\<open>nw nh\<close>, the raw size \<^verbatim>\<open>rw rh\<close>, and the five scale factors. The sizes are ints:
  opengl.c prints them with \<^verbatim>\<open>%d\<close>, hands them to \<^verbatim>\<open>SDL_SetVideoMode\<close> and casts them
  to double where it wants a real quotient.\<close>

record glInfo =
  scr_w :: int
  scr_h :: int
  scr_nw :: int
  scr_nh :: int
  scr_rw :: int
  scr_rh :: int
  scr_scale :: real
  scr_wscale :: real
  scr_hscale :: real
  scr_mxscale :: real
  scr_myscale :: real

text \<open>Modelled from the spec: \<^verbatim>\<open>Vector2d\<close> with the macros \<^verbatim>\<open>VX\<close>, \<^verbatim>\<open>VY\<close> and \<^verbatim>\<open>glColour\<close>
  with the macro \<^verbatim>\<open>COLOUR\<close> are declared in headers that are not among the sources; the
  camera is a 2D position and a tint has four components.\<close>

record Vector2d =
  vec_x :: real
  vec_y :: real

record glColour =
  col_r :: real
  col_g :: real
  col_b :: real
  col_a :: real

text \<open>The fields of \<^verbatim>\<open>SDL_Surface\<close> that the code reads. Sizes are naturals: a surface
  handed over by SDL has no negative dimension.\<close>

record SDL_Surface =
  surf_w :: nat
  surf_h :: nat
  surf_pitch :: nat
  surf_BytesPerPixel :: nat
  surf_colorkey :: Uint32
  surf_pixels :: "Uint8 list"

datatype gl_enum =
  GL_TEXTURE_MAG_FILTER | GL_TEXTURE_MIN_FILTER | GL_TEXTURE_WRAP_S | GL_TEXTURE_WRAP_T
  | GL_LINEAR | GL_NEAREST | GL_REPEAT

text \<open>Modelled from the spec: the macros \<^verbatim>\<open>WARN\<close> and \<^verbatim>\<open>ERR\<close> are defined in log.h, which
  is not among the sources. The specification has every failure logged and returned
  to the caller, so both only write a message; the messages are those of opengl.c.\<close>

datatype log_msg =
    Warn_free_NULL_texture
  | Warn_not_found_in_stack string
  | Err_loading_surface_from_ndata
  | Err_could_not_be_opened string
  | Warn_converting_to_screen_format
  | Warn_flipping_surface
  | Warn_out_of_memory
  | Warn_create_POT_surface
  | Warn_fill_rect

datatype event =
    GlGenTextures GLuint
  | GlBindTexture GLuint
  | GlTexParameteri gl_enum gl_enum
  | GlTexImage2D nat nat
  | GlDeleteTextures GLuint
  | GlEnable_TEXTURE_2D
  | GlDisable_TEXTURE_2D
  | GlBegin_QUADS
  | GlEnd
  | GlColor4d real real real real
  | GlTexCoord2d real real
  | GlVertex2d real real
  | GlGetError
  | Free_texture addr
  | Free_trans addr
  | Free_name addr
  | Log log_msg

text \<open>The globals of opengl.c (\<^verbatim>\<open>texture_list\<close>, \<^verbatim>\<open>gl_screen\<close>, \<^verbatim>\<open>gl_camera\<close>), the
  two GUI offsets it imports, the store of texture structures with the allocator's
  next address, OpenGL's next texture name, and the trace.\<close>

record gl_state =
  texture_list :: "glTexList list"
  store :: "addr \<Rightarrow> glTexture option"
  next_addr :: addr
  next_texture :: GLuint
  gl_screen :: glInfo
  gl_camera :: "Vector2d option"
  gui_xoff :: real
  gui_yoff :: real
  trace :: "event list"

text \<open>The collaborators outside opengl.c: the asset reader, the image decoder, the
  SDL conversions, and whether the allocations that the code checks succeed.\<close>

record externals =
  ndata_read :: "string \<Rightarrow> Uint8 list option"
  IMG_Load_RW :: "Uint8 list \<Rightarrow> SDL_Surface option"
  SDL_DisplayFormatAlpha :: "SDL_Surface \<Rightarrow> SDL_Surface option"
  SDL_BlitSurface :: "SDL_Surface \<Rightarrow> SDL_Surface \<Rightarrow> Uint8 list"
  SDL_CreateRGBSurface_ok :: bool
  SDL_FillRect_ok :: bool
  malloc_tmpbuf_ok :: bool
  big_endian :: bool

definition emit :: "event list \<Rightarrow> gl_state \<Rightarrow> gl_state" where
  "emit es st = st\<lparr>trace := trace st @ es\<rparr>"

subsection \<open>Miscellaneous functions\<close>

text \<open>\<^verbatim>\<open>gl_pot\<close>: \<^verbatim>\<open>i = 1; while (i < n) i <<= 1; return i;\<close>  The shift of a signed
  int is defined only while the doubled value fits; otherwise, and when the loop
  does not end, the model has no result.\<close>

partial_function (option) gl_pot_loop :: "int \<Rightarrow> int \<Rightarrow> int option" where
  "gl_pot_loop i n =
     (if i < n then (if i < 0 \<or> INT_MAX < 2 * i then None else gl_pot_loop (2 * i) n)
      else Some i)"

definition gl_pot :: "int \<Rightarrow> int option" where
  "gl_pot n = gl_pot_loop 1 n"

text \<open>\<^verbatim>\<open>SDL_VFlipSurface\<close>: swaps row \<open>y\<close> with row \<open>h - 1 - y\<close> for \<open>y < h / 2\<close>, through a
  buffer of one row; \<open>None\<close> stands for the return value -1 when the buffer cannot be
  allocated.\<close>

definition get_row :: "nat \<Rightarrow> nat \<Rightarrow> Uint8 list \<Rightarrow> Uint8 list" where
  "get_row pitch y px = take pitch (drop (y * pitch) px)"

definition put_row :: "nat \<Rightarrow> nat \<Rightarrow> Uint8 list \<Rightarrow> Uint8 list \<Rightarrow> Uint8 list" where
  "put_row pitch y r px = take (y * pitch) px @ r @ drop (y * pitch + pitch) px"

definition swap_rows :: "nat \<Rightarrow> nat \<Rightarrow> nat \<Rightarrow> Uint8 list \<Rightarrow> Uint8 list" where
  "swap_rows pitch hi lo px =
     (let tmpbuf = get_row pitch hi px;
          px1 = put_row pitch hi (get_row pitch lo px) px
      in put_row pitch lo tmpbuf px1)"

definition SDL_VFlipSurface :: "externals \<Rightarrow> SDL_Surface \<Rightarrow> SDL_Surface option" where
  "SDL_VFlipSurface ext surface =
     (if \<not> malloc_tmpbuf_ok ext then None
      else Some (surface\<lparr>surf_pixels :=
             fold (\<lambda>y px. swap_rows (surf_pitch surface) y (surf_h surface - 1 - y) px)
               [0..<surf_h surface div 2] (surf_pixels surface)\<rparr>))"

text \<open>\<^verbatim>\<open>SDL_IsTrans\<close>: the pixel at \<open>pixels + y*pitch + x*bpp\<close>, read with the width
  \<open>bpp\<close> in the byte order of the machine, compared with the colour key. A read past
  the pixel buffer has no result. With a \<open>bpp\<close> outside 1..4 nothing is read and the
  colour stays 0.\<close>

definition pixelcolour :: "bool \<Rightarrow> SDL_Surface \<Rightarrow> nat \<Rightarrow> nat \<Rightarrow> Uint32 option" where
  "pixelcolour be s x y =
     (let bpp = surf_BytesPerPixel s;
          p = y * surf_pitch s + x * bpp;
          px = surf_pixels s;
          b0 = (ucast (px ! p) :: Uint32);
          b1 = (ucast (px ! (p + 1)) :: Uint32);
          b2 = (ucast (px ! (p + 2)) :: Uint32);
          b3 = (ucast (px ! (p + 3)) :: Uint32)
      in if bpp = 1 then (if p < length px then Some b0 else None)
         else if bpp = 2 then
           (if p + 1 < length px
            then Some (if be then push_bit 8 b0 OR b1 else b0 OR push_bit 8 b1)
            else None)
         else if bpp = 3 then
           (if p + 2 < length px
            then Some (if be then push_bit 16 b0 OR push_bit 8 b1 OR b2
                       else b0 OR push_bit 8 b1 OR push_bit 16 b2)
            else None)
         else if bpp = 4 then
           (if p + 3 < length px
            then Some (if be then push_bit 24 b0 OR push_bit 16 b1 OR push_bit 8 b2 OR b3
                       else b0 OR push_bit 8 b1 OR push_bit 16 b2 OR push_bit 24 b3)
            else None)
         else Some 0)"

definition SDL_IsTrans :: "bool \<Rightarrow> SDL_Surface \<Rightarrow> nat \<Rightarrow> nat \<Rightarrow> bool option" where
  "SDL_IsTrans be s x y =
     (case pixelcolour be s x y of None \<Rightarrow> None
      | Some c \<Rightarrow> Some (c = surf_colorkey s))"

text \<open>\<^verbatim>\<open>SDL_MapTrans\<close>: \<open>size = w*h/8 + ((w*h%8)?1:0)\<close> zeroed bytes, then for \<open>i < h\<close>,
  \<open>j < w\<close>: \<open>t[(i*w+j)/8] |= SDL_IsTrans(s,j,i) ? 0 : (1<<((i*w+j)%8))\<close>.\<close>

definition set_opaque :: "nat \<Rightarrow> bool \<Rightarrow> Uint8 list \<Rightarrow> Uint8 list" where
  "set_opaque k tr t =
     t[k div 8 := (t ! (k div 8)) OR (if tr then 0 else push_bit (k mod 8) 1)]"

function MapTrans_row ::
  "bool \<Rightarrow> SDL_Surface \<Rightarrow> nat \<Rightarrow> nat \<Rightarrow> Uint8 list \<Rightarrow> Uint8 list option" where
  "MapTrans_row be s i j t =
     (if j < surf_w s
      then (case SDL_IsTrans be s j i of None \<Rightarrow> None
            | Some tr \<Rightarrow> MapTrans_row be s i (j + 1) (set_opaque (i * surf_w s + j) tr t))
      else Some t)"
  by pat_completeness auto
termination
  by (relation "measure (\<lambda>(be, s, i, j, t). surf_w s - j)") auto

function MapTrans_rows ::
  "bool \<Rightarrow> SDL_Surface \<Rightarrow> nat \<Rightarrow> Uint8 list \<Rightarrow> Uint8 list option" where
  "MapTrans_rows be s i t =
     (if i < surf_h s
      then (case MapTrans_row be s i 0 t of None \<Rightarrow> None
            | Some t' \<Rightarrow> MapTrans_rows be s (i + 1) t')
      else Some t)"
  by pat_completeness auto
termination
  by (relation "measure (\<lambda>(be, s, i, t). surf_h s - i)") auto

declare MapTrans_row.simps [simp del]

declare MapTrans_rows.simps [simp del]

definition SDL_MapTrans :: "bool \<Rightarrow> SDL_Surface \<Rightarrow> Uint8 list option" where
  "SDL_MapTrans be s =
     (let n = surf_w s * surf_h s;
          sz = n div 8 + (if n mod 8 \<noteq> 0 then 1 else 0)
      in MapTrans_rows be s 0 (replicate sz 0))"

subsection \<open>Loading textures\<close>

text \<open>\<^verbatim>\<open>gl_prepareSurface\<close>: a new surface of the padded size, filled and then
  blitted with the old one; \<open>None\<close> (with a warning) when SDL cannot create or fill
  it.\<close>

definition gl_prepareSurface ::
  "externals \<Rightarrow> SDL_Surface \<Rightarrow> gl_state \<Rightarrow> gl_error + (SDL_Surface option \<times> gl_state)" where
  "gl_prepareSurface ext surface st =
     (case gl_pot (int (surf_w surface)) of None \<Rightarrow> Inl Undefined_shift
      | Some potw \<Rightarrow>
     (case gl_pot (int (surf_h surface)) of None \<Rightarrow> Inl Undefined_shift
      | Some poth \<Rightarrow>
        if \<not> SDL_CreateRGBSurface_ok ext
        then Inr (None, emit [Log Warn_create_POT_surface] st)
        else if \<not> SDL_FillRect_ok ext
        then Inr (None, emit [Log Warn_fill_rect] st)
        else
          (let temp = \<lparr>surf_w = nat potw, surf_h = nat poth,
                       surf_pitch = nat potw * surf_BytesPerPixel surface,
                       surf_BytesPerPixel = surf_BytesPerPixel surface,
                       surf_colorkey = 0,
                       surf_pixels =
                         replicate (nat poth * (nat potw * surf_BytesPerPixel surface)) 0\<rparr>
           in Inr (Some (temp\<lparr>surf_pixels := SDL_BlitSurface ext surface temp\<rparr>), st))))"

text \<open>\<^verbatim>\<open>gl_loadSurface\<close>: reads the size of the prepared surface without testing the
  pointer, then creates, configures and uploads the texture. The result is the
  texture name with \<open>rw\<close> and \<open>rh\<close>.\<close>

definition gl_loadSurface ::
  "externals \<Rightarrow> SDL_Surface \<Rightarrow> gl_state \<Rightarrow> gl_error + ((GLuint \<times> nat \<times> nat) \<times> gl_state)" where
  "gl_loadSurface ext surface st =
     (case gl_prepareSurface ext surface st of Inl e \<Rightarrow> Inl e
      | Inr (None, st1) \<Rightarrow> Inl Null_dereference
      | Inr (Some prepared, st1) \<Rightarrow>
          (let texture = next_texture st1;
               filt = (if scr_scale (gl_screen st1) \<noteq> 1 then GL_LINEAR else GL_NEAREST)
           in Inr ((texture, surf_w prepared, surf_h prepared),
                emit [GlGenTextures texture, GlBindTexture texture,
                      GlTexParameteri GL_TEXTURE_MAG_FILTER filt,
                      GlTexParameteri GL_TEXTURE_MIN_FILTER filt,
                      GlTexParameteri GL_TEXTURE_WRAP_S GL_REPEAT,
                      GlTexParameteri GL_TEXTURE_WRAP_T GL_REPEAT,
                      GlTexImage2D (surf_w prepared) (surf_h prepared),
                      GlGetError]
                  (st1\<lparr>next_texture := Suc texture\<rparr>))))"

text \<open>\<^verbatim>\<open>gl_loadImage\<close>: a new texture structure with the defaults of a one-cell sheet.\<close>

definition gl_loadImage ::
  "externals \<Rightarrow> SDL_Surface \<Rightarrow> gl_state \<Rightarrow> gl_error + (addr \<times> gl_state)" where
  "gl_loadImage ext surface st =
     (let a = next_addr st;
          st0 = st\<lparr>next_addr := Suc a\<rparr>
      in case gl_loadSurface ext surface st0 of Inl e \<Rightarrow> Inl e
         | Inr ((texture, rw, rh), st1) \<Rightarrow>
             Inr (a, st1\<lparr>store := (store st1)(a \<mapsto>
               \<lparr>tex_w = real (surf_w surface), tex_h = real (surf_h surface),
                tex_rw = real rw, tex_rh = real rh,
                tex_sx = 1, tex_sy = 1,
                tex_sw = real (surf_w surface), tex_sh = real (surf_h surface),
                tex_texture = texture, tex_trans = None, tex_name = None\<rparr>)\<rparr>))"

text \<open>Modelled from the spec: the flag \<^verbatim>\<open>OPENGL_TEX_MAPTRANS\<close> is a macro of opengl.h,
  which is not among the sources; the spec names it as the one load option
  (pixel-accurate collision). It is taken as the lowest bit of the flags.\<close>

definition OPENGL_TEX_MAPTRANS :: Uint32 where
  "OPENGL_TEX_MAPTRANS = 1"

text \<open>\<^verbatim>\<open>gl_loadNewImage\<close>: read, decode, convert, flip, map the transparency when
  asked, load. Each failure logs and returns \<^verbatim>\<open>NULL\<close>.\<close>

definition gl_loadNewImage ::
  "externals \<Rightarrow> string \<Rightarrow> Uint32 \<Rightarrow> gl_state \<Rightarrow> gl_error + (addr option \<times> gl_state)" where
  "gl_loadNewImage ext path flags st =
     (case ndata_read ext path of
        None \<Rightarrow> Inr (None, emit [Log Err_loading_surface_from_ndata] st)
      | Some buf \<Rightarrow>
     (case IMG_Load_RW ext buf of
        None \<Rightarrow> Inr (None, emit [Log (Err_could_not_be_opened path)] st)
      | Some temp \<Rightarrow>
     (case SDL_DisplayFormatAlpha ext temp of
        None \<Rightarrow> Inr (None, emit [Log Warn_converting_to_screen_format] st)
      | Some surface0 \<Rightarrow>
     (case SDL_VFlipSurface ext surface0 of
        None \<Rightarrow> Inr (None, emit [Log Warn_out_of_memory, Log Warn_flipping_surface] st)
      | Some surface \<Rightarrow>
     (case (if flags AND OPENGL_TEX_MAPTRANS \<noteq> 0
            then (case SDL_MapTrans (big_endian ext) surface of
                    None \<Rightarrow> Inl Out_of_bounds | Some m \<Rightarrow> Inr (Some m))
            else Inr None) of
        Inl e \<Rightarrow> Inl e
      | Inr tmap \<Rightarrow>
     (case gl_loadImage ext surface st of Inl e \<Rightarrow> Inl e
      | Inr (a, st1) \<Rightarrow>
          (case store st1 a of None \<Rightarrow> Inl Wild_pointer
           | Some t \<Rightarrow>
               Inr (Some a, st1\<lparr>store := (store st1)(a \<mapsto>
                      t\<lparr>tex_trans := tmap, tex_name := Some path\<rparr>)\<rparr>))))))))"

subsection \<open>The texture list\<close>

text \<open>Reading a texture structure through a pointer. An address below the allocator's
  next address that has no cell was freed; one that was never handed out is wild.\<close>

definition deref :: "gl_state \<Rightarrow> addr option \<Rightarrow> gl_error + glTexture" where
  "deref st p =
     (case p of None \<Rightarrow> Inl Null_dereference
      | Some a \<Rightarrow>
          (case store st a of
             None \<Rightarrow> Inl (if a < next_addr st then Use_after_free else Wild_pointer)
           | Some t \<Rightarrow> Inr t))"

text \<open>The loop of \<^verbatim>\<open>gl_newImage\<close>: \<^verbatim>\<open>strcmp(path, cur->tex->name)\<close> on every node in
  turn, with no test of \<^verbatim>\<open>cur->tex\<close> or of the name; at the first equal name the
  node's count goes up and its texture is the result. \<open>Inr None\<close>: no node has the
  name.\<close>

fun newImage_find ::
  "gl_state \<Rightarrow> string \<Rightarrow> glTexList list \<Rightarrow> gl_error + (glTexList list \<times> addr option) option" where
  "newImage_find st path [] = Inr None"
| "newImage_find st path (cur # rest) =
     (case deref st (node_tex cur) of Inl e \<Rightarrow> Inl e
      | Inr t \<Rightarrow>
     (case tex_name t of None \<Rightarrow> Inl Null_dereference
      | Some nm \<Rightarrow>
          if path = nm
          then Inr (Some (cur\<lparr>node_used := node_used cur + 1\<rparr> # rest, node_tex cur))
          else (case newImage_find st path rest of Inl e \<Rightarrow> Inl e
                | Inr None \<Rightarrow> Inr None
                | Inr (Some (rest', r)) \<Rightarrow> Inr (Some (cur # rest', r)))))"

text \<open>\<^verbatim>\<open>gl_newImage\<close>: when no node has the name, a node with count 1 and the result of
  \<^verbatim>\<open>gl_loadNewImage\<close> (whatever it is) goes to the end of the list.\<close>

definition gl_newImage ::
  "externals \<Rightarrow> string \<Rightarrow> Uint32 \<Rightarrow> gl_state \<Rightarrow> gl_error + (addr option \<times> gl_state)" where
  "gl_newImage ext path flags st =
     (case newImage_find st path (texture_list st) of Inl e \<Rightarrow> Inl e
      | Inr (Some (l, r)) \<Rightarrow> Inr (r, st\<lparr>texture_list := l\<rparr>)
      | Inr None \<Rightarrow>
          (case gl_loadNewImage ext path flags st of Inl e \<Rightarrow> Inl e
           | Inr (r, st1) \<Rightarrow>
               Inr (r, st1\<lparr>texture_list :=
                      texture_list st1 @ [\<lparr>node_tex = r, node_used = 1\<rparr>]\<rparr>)))"

text \<open>\<^verbatim>\<open>gl_newSprite\<close>: \<^verbatim>\<open>gl_newImage\<close>, then the sheet geometry is written into the
  texture it returned. With \<open>sx = 0\<close> or \<open>sy = 0\<close> the code stores the quotient of a
  double by zero, an infinity or a NaN, for which the model has no value.\<close>

definition gl_newSprite ::
  "externals \<Rightarrow> string \<Rightarrow> int \<Rightarrow> int \<Rightarrow> Uint32 \<Rightarrow> gl_state
     \<Rightarrow> gl_error + (addr option \<times> gl_state)" where
  "gl_newSprite ext path sx sy flags st =
     (case gl_newImage ext path flags st of Inl e \<Rightarrow> Inl e
      | Inr (None, st1) \<Rightarrow> Inr (None, st1)
      | Inr (Some a, st1) \<Rightarrow>
          (case deref st1 (Some a) of Inl e \<Rightarrow> Inl e
           | Inr t \<Rightarrow>
               (let t1 = t\<lparr>tex_sx := real_of_int sx, tex_sy := real_of_int sy\<rparr>
                in if tex_sx t1 = 0 \<or> tex_sy t1 = 0 then Inl Non_finite_double
                   else
                     (let t2 = t1\<lparr>tex_sw := tex_w t1 / tex_sx t1,
                                   tex_sh := tex_h t1 / tex_sy t1\<rparr>
                      in Inr (Some a, st1\<lparr>store := (store st1)(a \<mapsto> t2)\<rparr>)))))"

text \<open>The loop of \<^verbatim>\<open>gl_freeTexture\<close>: the first node whose texture is the pointer has
  its count lowered; at a count \<open>\<le> 0\<close> the node leaves the list. The flag says
  whether it left.\<close>

fun freeTexture_find :: "addr \<Rightarrow> glTexList list \<Rightarrow> (glTexList list \<times> bool) option" where
  "freeTexture_find a [] = None"
| "freeTexture_find a (cur # rest) =
     (if node_tex cur = Some a
      then (if node_used cur - 1 \<le> 0 then Some (rest, True)
            else Some (cur\<lparr>node_used := node_used cur - 1\<rparr> # rest, False))
      else (case freeTexture_find a rest of None \<Rightarrow> None
            | Some (rest', d) \<Rightarrow> Some (cur # rest', d)))"

text \<open>The calls that free a texture: \<^verbatim>\<open>glDeleteTextures\<close>, \<^verbatim>\<open>free(trans)\<close> and
  \<^verbatim>\<open>free(name)\<close> when not \<^verbatim>\<open>NULL\<close>, \<^verbatim>\<open>free(texture)\<close>.\<close>

definition free_calls :: "addr \<Rightarrow> glTexture \<Rightarrow> event list" where
  "free_calls a t =
     [GlDeleteTextures (tex_texture t)]
     @ (if tex_trans t \<noteq> None then [Free_trans a] else [])
     @ (if tex_name t \<noteq> None then [Free_name a] else [])
     @ [Free_texture a]"

text \<open>\<^verbatim>\<open>gl_freeTexture\<close>. The loop compares pointers only. A pointer that no node holds
  takes the last part of the function: it reads \<^verbatim>\<open>texture->name\<close> for the warning, then
  makes the same calls that free the texture ("Free anyways"), then \<^verbatim>\<open>gl_checkErr\<close>.
  Both parts that free read the structure first; after \<^verbatim>\<open>free(texture)\<close> its cell is
  gone from the store.\<close>

definition gl_freeTexture :: "addr option \<Rightarrow> gl_state \<Rightarrow> gl_error + gl_state" where
  "gl_freeTexture texture st =
     (case texture of
        None \<Rightarrow> Inr (emit [Log Warn_free_NULL_texture] st)
      | Some a \<Rightarrow>
     (case freeTexture_find a (texture_list st) of
        Some (l, False) \<Rightarrow> Inr (st\<lparr>texture_list := l\<rparr>)
      | Some (l, True) \<Rightarrow>
          (case deref st (Some a) of Inl e \<Rightarrow> Inl e
           | Inr t \<Rightarrow>
               Inr (emit (free_calls a t)
                      (st\<lparr>texture_list := l, store := (store st)(a := None)\<rparr>)))
      | None \<Rightarrow>
          (case deref st (Some a) of Inl e \<Rightarrow> Inl e
           | Inr t \<Rightarrow>
               Inr (emit
                 ((case tex_name t of None \<Rightarrow> []
                   | Some nm \<Rightarrow> [Log (Warn_not_found_in_stack nm)])
                  @ free_calls a t @ [GlGetError])
                 (st\<lparr>store := (store st)(a := None)\<rparr>)))))"


subsection \<open>Blitting\<close>

text \<open>The colour call of a blit: white when the colour pointer is \<^verbatim>\<open>NULL\<close>.\<close>

definition colour_call :: "glColour option \<Rightarrow> event" where
  "colour_call c =
     (case c of None \<Rightarrow> GlColor4d 1 1 1 1
      | Some k \<Rightarrow> GlColor4d (col_r k) (col_g k) (col_b k) (col_a k))"

text \<open>The calls between \<^verbatim>\<open>glEnable\<close> and \<^verbatim>\<open>gl_checkErr\<close> that \<^verbatim>\<open>gl_blitTexture\<close> and
  \<^verbatim>\<open>gl_blitScale\<close> share: one quad at \<open>(x, y)\<close> of extent \<open>(bw, bh)\<close> with the texel
  rectangle at \<open>(tx, ty)\<close> of extent \<open>(tw, th)\<close>.\<close>

definition quad_calls ::
  "GLuint \<Rightarrow> glColour option \<Rightarrow> real \<Rightarrow> real \<Rightarrow> real \<Rightarrow> real \<Rightarrow> real \<Rightarrow> real \<Rightarrow> real \<Rightarrow> real
     \<Rightarrow> event list" where
  "quad_calls texture c x y bw bh tx ty tw th =
     [GlEnable_TEXTURE_2D, GlBindTexture texture, GlBegin_QUADS, colour_call c,
      GlTexCoord2d tx ty, GlVertex2d x y,
      GlTexCoord2d (tx + tw) ty, GlVertex2d (x + bw) y,
      GlTexCoord2d (tx + tw) (ty + th), GlVertex2d (x + bw) (y + bh),
      GlTexCoord2d tx (ty + th), GlVertex2d x (y + bh),
      GlEnd, GlDisable_TEXTURE_2D, GlGetError]"

definition gl_blitTexture ::
  "addr option \<Rightarrow> real \<Rightarrow> real \<Rightarrow> real \<Rightarrow> real \<Rightarrow> glColour option \<Rightarrow> gl_state
     \<Rightarrow> gl_error + gl_state" where
  "gl_blitTexture texture x y tx ty c st =
     (case deref st texture of Inl e \<Rightarrow> Inl e
      | Inr t \<Rightarrow>
          (let tw = tex_sw t / tex_rw t;
               th = tex_sh t / tex_rh t
           in Inr (emit (quad_calls (tex_texture t) c x y (tex_sw t) (tex_sh t) tx ty tw th)
                     st)))"

text \<open>\<^verbatim>\<open>gl_blitSprite\<close>. \<^verbatim>\<open>SCREEN_W\<close> and \<^verbatim>\<open>SCREEN_H\<close> are the ints \<^verbatim>\<open>gl_screen.w\<close> and
  \<^verbatim>\<open>gl_screen.h\<close>, so \<^verbatim>\<open>SCREEN_W/2\<close> in the bounds test is an integer division.\<close>

definition gl_blitSprite ::
  "addr option \<Rightarrow> real \<Rightarrow> real \<Rightarrow> int \<Rightarrow> int \<Rightarrow> glColour option \<Rightarrow> gl_state
     \<Rightarrow> gl_error + gl_state" where
  "gl_blitSprite sprite bx by sx sy c st =
     (case gl_camera st of None \<Rightarrow> Inl Null_dereference
      | Some cam \<Rightarrow>
     (case deref st sprite of Inl e \<Rightarrow> Inl e
      | Inr t \<Rightarrow>
          (let x = bx - vec_x cam - tex_sw t / 2 + gui_xoff st;
               y = by - vec_y cam - tex_sh t / 2 + gui_yoff st
           in if \<bar>x\<bar> > real_of_int (c_div (scr_w (gl_screen st)) 2) + tex_sw t
                 \<or> \<bar>y\<bar> > real_of_int (c_div (scr_h (gl_screen st)) 2) + tex_sh t
              then Inr st
              else
                (let tx = tex_sw t * real_of_int sx / tex_rw t;
                     ty = tex_sh t * (tex_sy t - real_of_int sy - 1) / tex_rh t
                 in gl_blitTexture sprite x y tx ty c st))))"

definition gl_blitStaticSprite ::
  "addr option \<Rightarrow> real \<Rightarrow> real \<Rightarrow> int \<Rightarrow> int \<Rightarrow> glColour option \<Rightarrow> gl_state
     \<Rightarrow> gl_error + gl_state" where
  "gl_blitStaticSprite sprite bx by sx sy c st =
     (case deref st sprite of Inl e \<Rightarrow> Inl e
      | Inr t \<Rightarrow>
          (let x = bx - real_of_int (scr_w (gl_screen st)) / 2;
               y = by - real_of_int (scr_h (gl_screen st)) / 2;
               tx = tex_sw t * real_of_int sx / tex_rw t;
               ty = tex_sh t * (tex_sy t - real_of_int sy - 1) / tex_rh t
           in gl_blitTexture sprite x y tx ty c st))"

definition gl_blitScale ::
  "addr option \<Rightarrow> real \<Rightarrow> real \<Rightarrow> real \<Rightarrow> real \<Rightarrow> glColour option \<Rightarrow> gl_state
     \<Rightarrow> gl_error + gl_state" where
  "gl_blitScale texture bx by bw bh c st =
     (case deref st texture of Inl e \<Rightarrow> Inl e
      | Inr t \<Rightarrow>
          (let x = bx - real_of_int (scr_w (gl_screen st)) / 2;
               y = by - real_of_int (scr_h (gl_screen st)) / 2;
               tw = tex_sw t / tex_rw t;
               th = tex_sh t / tex_rh t
           in Inr (emit (quad_calls (tex_texture t) c x y bw bh 0 0 tw th) st)))"

definition gl_blitStatic ::
  "addr option \<Rightarrow> real \<Rightarrow> real \<Rightarrow> glColour option \<Rightarrow> gl_state \<Rightarrow> gl_error + gl_state" where
  "gl_blitStatic texture bx by c st =
     (let x = bx - real_of_int (scr_w (gl_screen st)) / 2;
          y = by - real_of_int (scr_h (gl_screen st)) / 2
      in gl_blitTexture texture x y 0 0 c st)"

definition gl_bindCamera :: "Vector2d option \<Rightarrow> gl_state \<Rightarrow> gl_state" where
  "gl_bindCamera pos st = st\<lparr>gl_camera := pos\<rparr>"

subsection \<open>The viewport\<close>

text \<open>The part of \<^verbatim>\<open>gl_init\<close> from "Set up the proper viewport to use" to the scale
  factors, on the \<^verbatim>\<open>gl_screen\<close> that the video mode left. \<^verbatim>\<open>SCREEN_W\<close> is read anew at
  each use: the first branch assigns \<^verbatim>\<open>gl_screen.w\<close> last, the second
  \<^verbatim>\<open>gl_screen.h\<close> last.\<close>

definition gl_init_viewport :: "glInfo \<Rightarrow> gl_error + glInfo" where
  "gl_init_viewport g0 =
     (let g1 = g0\<lparr>scr_rw := scr_w g0, scr_rh := scr_h g0,
                  scr_nw := scr_w g0, scr_nh := scr_h g0, scr_scale := 1\<rparr>
      in case
           (if scr_w g1 < 600 \<and> scr_w g1 \<le> scr_h g1
            then
              (if scr_w g1 = 0 then Inl Division_by_zero
               else Inr (g1\<lparr>scr_scale := real_of_int (scr_w g1) / 600,
                             scr_h := c_div (scr_h g1 * 600) (scr_w g1),
                             scr_nh := c_div (scr_rh g1 * scr_w g1) 600,
                             scr_w := 600\<rparr>))
            else if scr_h g1 < 600 \<and> scr_w g1 \<ge> scr_h g1
            then
              (if scr_h g1 = 0 then Inl Division_by_zero
               else Inr (g1\<lparr>scr_scale := real_of_int (scr_h g1) / 600,
                             scr_w := c_div (scr_w g1 * 600) (scr_h g1),
                             scr_nw := c_div (scr_rw g1 * scr_h g1) 600,
                             scr_h := 600\<rparr>))
            else Inr g1) of
           Inl e \<Rightarrow> Inl e
         | Inr g2 \<Rightarrow>
             Inr (g2\<lparr>scr_wscale := real_of_int (scr_nw g2) / real_of_int (scr_w g2),
                      scr_hscale := real_of_int (scr_nh g2) / real_of_int (scr_h g2),
                      scr_mxscale := real_of_int (scr_w g2) / real_of_int (scr_rw g2),
                      scr_myscale := real_of_int (scr_h g2) / real_of_int (scr_rh g2)\<rparr>))"

section \<open>Scenario data\<close>

text \<open>A small concrete configuration on which the theorems below are instantiated: an
  800 by 600 screen, an empty texture list, a camera at the origin, and collaborators
  that know the single asset \<open>a.png\<close>, a 5 by 5 image of four bytes per pixel.\<close>

definition demo_screen :: glInfo where
  "demo_screen = \<lparr>scr_w = 800, scr_h = 600, scr_nw = 800, scr_nh = 600, scr_rw = 800,
     scr_rh = 600, scr_scale = 1, scr_wscale = 1, scr_hscale = 1, scr_mxscale = 1,
     scr_myscale = 1\<rparr>"

definition demo_state :: gl_state where
  "demo_state = \<lparr>texture_list = [], store = (\<lambda>a. None), next_addr = 0, next_texture = 1,
     gl_screen = demo_screen, gl_camera = Some \<lparr>vec_x = 0, vec_y = 0\<rparr>,
     gui_xoff = 0, gui_yoff = 0, trace = []\<rparr>"

definition demo_surface :: "nat \<Rightarrow> nat \<Rightarrow> SDL_Surface" where
  "demo_surface w h = \<lparr>surf_w = w, surf_h = h, surf_pitch = w * 4, surf_BytesPerPixel = 4,
     surf_colorkey = 0, surf_pixels = replicate (h * (w * 4)) 0\<rparr>"

definition demo_ext :: externals where
  "demo_ext = \<lparr>ndata_read = (\<lambda>p. if p = ''a.png'' then Some [1] else None),
     IMG_Load_RW = (\<lambda>b. if b = [1] then Some (demo_surface 5 5) else None),
     SDL_DisplayFormatAlpha = (\<lambda>s. Some s),
     SDL_BlitSurface = (\<lambda>src dst. surf_pixels dst),
     SDL_CreateRGBSurface_ok = True, SDL_FillRect_ok = True, malloc_tmpbuf_ok = True,
     big_endian = False\<rparr>"

text \<open>A 10 by 10 texture on a screen of odd width 801.\<close>

definition demo_texture :: glTexture where
  "demo_texture = \<lparr>tex_w = 10, tex_h = 10, tex_rw = 16, tex_rh = 16, tex_sx = 1, tex_sy = 1,
     tex_sw = 10, tex_sh = 10, tex_texture = 1, tex_trans = None, tex_name = Some ''a.png''\<rparr>"

definition odd_screen_state :: gl_state where
  "odd_screen_state = demo_state\<lparr>gl_screen := demo_screen\<lparr>scr_w := 801\<rparr>,
     store := (\<lambda>a. None)(0 \<mapsto> demo_texture), next_addr := 1, next_texture := 2,
     texture_list := [\<lparr>node_tex = Some 0, node_used = 1\<rparr>]\<rparr>"

section \<open>Well-formed surfaces and the bits of the map\<close>





section \<open>Well-formed texture lists\<close>

text \<open>The names of the nodes as the scan of \<open>gl_newImage\<close> would read them.\<close>

definition node_name :: "gl_state \<Rightarrow> glTexList \<Rightarrow> string option" where
  "node_name st n =
     (case node_tex n of None \<Rightarrow> None
      | Some a \<Rightarrow> (case store st a of None \<Rightarrow> None | Some t \<Rightarrow> tex_name t))"


text \<open>A list that already holds \<open>b.png\<close> (a 10 by 10 image at address 0, GPU texture 1,
  used once); the state after \<open>a.png\<close> was acquired in it once (address 1, GPU
  texture 2); and the state after \<open>a.png\<close> was released again.\<close>

definition other_texture :: glTexture where
  "other_texture = \<lparr>tex_w = 10, tex_h = 10, tex_rw = 16, tex_rh = 16, tex_sx = 1, tex_sy = 1,
     tex_sw = 10, tex_sh = 10, tex_texture = 1, tex_trans = None, tex_name = Some ''b.png''\<rparr>"

definition loaded_texture :: glTexture where
  "loaded_texture = \<lparr>tex_w = 5, tex_h = 5, tex_rw = 8, tex_rh = 8, tex_sx = 1, tex_sy = 1,
     tex_sw = 5, tex_sh = 5, tex_texture = 2, tex_trans = None, tex_name = Some ''a.png''\<rparr>"

definition cached_state :: gl_state where
  "cached_state = demo_state\<lparr>texture_list := [\<lparr>node_tex = Some 0, node_used = 1\<rparr>],
     store := (\<lambda>a. None)(0 \<mapsto> other_texture), next_addr := 1, next_texture := 2\<rparr>"

definition acquired_state :: gl_state where
  "acquired_state = cached_state\<lparr>
     texture_list := [\<lparr>node_tex = Some 0, node_used = 1\<rparr>, \<lparr>node_tex = Some 1, node_used = 1\<rparr>],
     store := (\<lambda>a. None)(0 \<mapsto> other_texture, 1 \<mapsto> loaded_texture),
     next_addr := 2, next_texture := 3,
     trace := [GlGenTextures 2, GlBindTexture 2,
               GlTexParameteri GL_TEXTURE_MAG_FILTER GL_NEAREST,
               GlTexParameteri GL_TEXTURE_MIN_FILTER GL_NEAREST,
               GlTexParameteri GL_TEXTURE_WRAP_S GL_REPEAT,
               GlTexParameteri GL_TEXTURE_WRAP_T GL_REPEAT,
               GlTexImage2D 8 8, GlGetError]\<rparr>"

definition released_state :: gl_state where
  "released_state = acquired_state\<lparr>
     texture_list := [\<lparr>node_tex = Some 0, node_used = 1\<rparr>],
     store := (\<lambda>a. None)(0 \<mapsto> other_texture),
     trace := trace acquired_state @ [GlDeleteTextures 2, Free_name 1, Free_texture 1]\<rparr>"

text \<open>The state after the acquisition of a missing asset in \<open>demo_state\<close>.\<close>

definition demo_failed :: gl_state where
  "demo_failed = demo_state\<lparr>texture_list := [\<lparr>node_tex = None, node_used = 1\<rparr>],
     trace := [Log Err_loading_surface_from_ndata]\<rparr>"

section \<open>Power-of-two padding\<close>

text \<open>The loop of \<open>gl_pot\<close> keeps \<open>i\<close> a power of two whose half is below \<open>n\<close>; the
  measure is the distance of \<open>i\<close> to \<open>INT_MAX\<close>.\<close>

lemma gl_pot_loop_partial:
  "gl_pot_loop i n = Some p \<Longrightarrow> i = 2 ^ k \<Longrightarrow> (k = 0 \<or> 2 ^ (k - 1) < n)
   \<Longrightarrow> \<exists>m. p = 2 ^ m \<and> n \<le> p \<and> (m = 0 \<or> 2 ^ (m - 1) < n)"
proof (induction "nat (INT_MAX + 1 - i)" arbitrary: i k rule: less_induct)
  case less
  have ipos: "1 \<le> i" using less.prems(2) by simp
  show ?case
  proof (cases "i < n")
    case False
    with less.prems(1) have "p = i" by (simp add: gl_pot_loop.simps)
    with False less.prems(2,3) show ?thesis by (intro exI [of _ k]) auto
  next
    case True
    show ?thesis
    proof (cases "i < 0 \<or> INT_MAX < 2 * i")
      case True
      with \<open>i < n\<close> less.prems(1) show ?thesis by (simp add: gl_pot_loop.simps)
    next
      case False
      with \<open>i < n\<close> less.prems(1) have rec: "gl_pot_loop (2 * i) n = Some p"
        by (simp add: gl_pot_loop.simps)
      have dec: "nat (INT_MAX + 1 - 2 * i) < nat (INT_MAX + 1 - i)"
        using False ipos by (simp add: INT_MAX_def)
      have i2: "2 * i = 2 ^ Suc k" using less.prems(2) by simp
      have "Suc k = 0 \<or> (2::int) ^ (Suc k - 1) < n" using \<open>i < n\<close> less.prems(2) by simp
      from less.hyps [OF dec rec i2 this] show ?thesis .
    qed
  qed
qed

text \<open>The loop ends with a result whenever \<open>n\<close> is at most \<open>2^30\<close>.\<close>

lemma gl_pot_loop_total:
  "i = 2 ^ k \<Longrightarrow> k \<le> 30 \<Longrightarrow> n \<le> 2 ^ 30 \<Longrightarrow> \<exists>p. gl_pot_loop i n = Some p"
proof (induction "30 - k" arbitrary: i k)
  case 0
  then have "k = 30" by simp
  with 0 have "\<not> i < n" by simp
  then show ?case by (simp add: gl_pot_loop.simps)
next
  case (Suc d)
  show ?case
  proof (cases "i < n")
    case False
    then show ?thesis by (simp add: gl_pot_loop.simps)
  next
    case True
    have k: "k < 30" using Suc.hyps(2) by simp
    have "(2::int) ^ k \<le> 2 ^ 29" using k by (intro power_increasing) simp_all
    then have ok: "\<not> (i < 0 \<or> INT_MAX < 2 * i)" using Suc.prems(1) by (simp add: INT_MAX_def)
    have "\<exists>p. gl_pot_loop (2 * i) n = Some p"
      using Suc.hyps(1) [of "Suc k" "2 * i"] Suc.hyps(2) Suc.prems k by simp
    with True ok show ?thesis by (subst gl_pot_loop.simps) simp
  qed
qed

lemma gl_pot_returns:
  assumes "n \<le> 2 ^ 30"
  shows "\<exists>p. gl_pot n = Some p"
  using gl_pot_loop_total [of 1 0 n] assms by (simp add: gl_pot_def)

lemma gl_pot_smallest:
  assumes "gl_pot n = Some p"
  shows "\<exists>m. p = 2 ^ m \<and> n \<le> p \<and> (\<forall>j. n \<le> 2 ^ j \<longrightarrow> m \<le> j)"
proof -
  from assms have "gl_pot_loop (2 ^ 0) n = Some p" by (simp add: gl_pot_def)
  from gl_pot_loop_partial [OF this refl] obtain m
    where m: "p = 2 ^ m" "n \<le> p" "m = 0 \<or> 2 ^ (m - 1) < n" by auto
  have "m \<le> j" if "n \<le> 2 ^ j" for j
  proof (cases "m = 0")
    case False
    from m(3) False have "(2::int) ^ (m - 1) < n" by blast
    with that have "(2::int) ^ (m - 1) < 2 ^ j" by linarith
    then have "m - 1 < j" by (rule power_less_imp_less_exp [rotated]) simp
    with False show ?thesis by simp
  qed simp
  with m show ?thesis by blast
qed

lemma gl_pot_pos: "gl_pot n = Some p \<Longrightarrow> 1 \<le> p"
  by (drule gl_pot_smallest) auto

lemma gl_pot_5: "gl_pot 5 = Some 8"
  by (simp add: gl_pot_def gl_pot_loop.simps INT_MAX_def)

lemma gl_pot_16: "gl_pot 16 = Some 16"
  by (simp add: gl_pot_def gl_pot_loop.simps INT_MAX_def)

lemma gl_prepareSurface_Some:
  assumes "gl_prepareSurface ext s st = Inr (Some p, st1)"
  shows "\<exists>pw ph. gl_pot (int (surf_w s)) = Some pw \<and> gl_pot (int (surf_h s)) = Some ph
           \<and> surf_w p = nat pw \<and> surf_h p = nat ph \<and> st1 = st"
  using assms
  by (auto simp: gl_prepareSurface_def Let_def split: option.splits if_splits)

lemma gl_loadSurface_Inr:
  assumes "gl_loadSurface ext s st = Inr ((texture, rw, rh), st1)"
  shows "\<exists>pw ph. gl_pot (int (surf_w s)) = Some pw \<and> gl_pot (int (surf_h s)) = Some ph
           \<and> rw = nat pw \<and> rh = nat ph \<and> texture = next_texture st
           \<and> store st1 = store st \<and> texture_list st1 = texture_list st"
proof -
  from assms obtain p st0 where p: "gl_prepareSurface ext s st = Inr (Some p, st0)"
    and r: "rw = surf_w p" "rh = surf_h p" "texture = next_texture st0"
      "store st1 = store st0" "texture_list st1 = texture_list st0"
    by (auto simp: gl_loadSurface_def Let_def emit_def split: sum.splits option.splits prod.splits)
  from gl_prepareSurface_Some [OF p] r show ?thesis by auto
qed

lemma gl_loadImage_padding:
  assumes "gl_loadImage ext surface st = Inr (a, st')"
  shows "\<exists>t pw ph. store st' a = Some t
           \<and> tex_w t = real (surf_w surface) \<and> tex_h t = real (surf_h surface)
           \<and> gl_pot (int (surf_w surface)) = Some pw \<and> tex_rw t = real_of_int pw
           \<and> gl_pot (int (surf_h surface)) = Some ph \<and> tex_rh t = real_of_int ph"
proof -
  from assms obtain texture rw rh st1
    where l: "gl_loadSurface ext surface (st\<lparr>next_addr := Suc (next_addr st)\<rparr>)
                = Inr ((texture, rw, rh), st1)"
      and s: "store st' a = Some \<lparr>tex_w = real (surf_w surface), tex_h = real (surf_h surface),
                tex_rw = real rw, tex_rh = real rh,
                tex_sx = 1, tex_sy = 1,
                tex_sw = real (surf_w surface), tex_sh = real (surf_h surface),
                tex_texture = texture, tex_trans = None, tex_name = None\<rparr>"
    by (auto simp: gl_loadImage_def Let_def split: sum.splits prod.splits)
  from gl_loadSurface_Inr [OF l] obtain pw ph
    where p: "gl_pot (int (surf_w surface)) = Some pw" "gl_pot (int (surf_h surface)) = Some ph"
      "rw = nat pw" "rh = nat ph" by auto
  from p(1,2) have "1 \<le> pw" "1 \<le> ph" by (auto dest: gl_pot_pos)
  with s p show ?thesis by simp
qed

text \<open>A load returns a texture whenever SDL provides the padded surface and the image
  is at most \<open>2^30\<close> pixels wide and high.\<close>

lemma gl_loadImage_returns:
  assumes "SDL_CreateRGBSurface_ok ext" "SDL_FillRect_ok ext"
    and "surf_w surface \<le> 2 ^ 30" "surf_h surface \<le> 2 ^ 30"
  shows "\<exists>a st'. gl_loadImage ext surface st = Inr (a, st')"
proof -
  from assms(3) have "int (surf_w surface) \<le> 2 ^ 30" by simp
  then obtain pw where pw: "gl_pot (int (surf_w surface)) = Some pw"
    using gl_pot_returns by blast
  from assms(4) have "int (surf_h surface) \<le> 2 ^ 30" by simp
  then obtain ph where ph: "gl_pot (int (surf_h surface)) = Some ph"
    using gl_pot_returns by blast
  show ?thesis using assms(1,2) pw ph
    by (simp add: gl_loadImage_def gl_loadSurface_def gl_prepareSurface_def Let_def)
qed

lemma real_le_pow2_iff: "real n \<le> 2 ^ j \<longleftrightarrow> int n \<le> 2 ^ j"
  by simp

text \<open>C6. Whenever SDL provides the padded surface and the image is at most \<open>2^30\<close> wide
  and high, \<open>gl_loadImage\<close> returns a texture; and every texture it returns keeps the
  logical size in \<open>w, h\<close> and stores in \<open>rw, rh\<close> the smallest power of two that is not
  below the logical width, respectively height: \<open>rw = 2^kw\<close> with \<open>w \<le> 2^kw\<close> and \<open>kw\<close>
  least such. In particular a logical side of 5 is stored as 8, and a side of 16 stays
  16.\<close>

theorem C6_power_of_two_padding:
  "(SDL_CreateRGBSurface_ok ext \<and> SDL_FillRect_ok ext
      \<and> surf_w surface \<le> 2 ^ 30 \<and> surf_h surface \<le> 2 ^ 30 \<longrightarrow>
      (\<exists>a st'. gl_loadImage ext surface st = Inr (a, st')))
   \<and> (\<forall>a st'. gl_loadImage ext surface st = Inr (a, st') \<longrightarrow>
        (\<exists>t kw kh. store st' a = Some t
           \<and> tex_w t = real (surf_w surface) \<and> tex_h t = real (surf_h surface)
           \<and> tex_rw t = 2 ^ kw \<and> tex_w t \<le> 2 ^ kw \<and> (\<forall>j. tex_w t \<le> 2 ^ j \<longrightarrow> kw \<le> j)
           \<and> tex_rh t = 2 ^ kh \<and> tex_h t \<le> 2 ^ kh \<and> (\<forall>j. tex_h t \<le> 2 ^ j \<longrightarrow> kh \<le> j)
           \<and> (surf_w surface = 5 \<longrightarrow> tex_rw t = 8) \<and> (surf_h surface = 5 \<longrightarrow> tex_rh t = 8)
           \<and> (surf_w surface = 16 \<longrightarrow> tex_rw t = 16)
           \<and> (surf_h surface = 16 \<longrightarrow> tex_rh t = 16)))"
proof (intro conjI impI allI)
  assume "SDL_CreateRGBSurface_ok ext \<and> SDL_FillRect_ok ext
      \<and> surf_w surface \<le> 2 ^ 30 \<and> surf_h surface \<le> 2 ^ 30"
  then show "\<exists>a st'. gl_loadImage ext surface st = Inr (a, st')"
    using gl_loadImage_returns [of ext surface st] by blast
next
  fix a st'
  assume ld: "gl_loadImage ext surface st = Inr (a, st')"
  from gl_loadImage_padding [OF ld] obtain t pw ph
    where t: "store st' a = Some t" "tex_w t = real (surf_w surface)"
      "tex_h t = real (surf_h surface)" "tex_rw t = real_of_int pw" "tex_rh t = real_of_int ph"
      and p: "gl_pot (int (surf_w surface)) = Some pw" "gl_pot (int (surf_h surface)) = Some ph"
    by blast
  from gl_pot_smallest [OF p(1)] obtain kw
    where kw: "pw = 2 ^ kw" "int (surf_w surface) \<le> pw"
      "\<forall>j. int (surf_w surface) \<le> 2 ^ j \<longrightarrow> kw \<le> j" by blast
  from gl_pot_smallest [OF p(2)] obtain kh
    where kh: "ph = 2 ^ kh" "int (surf_h surface) \<le> ph"
      "\<forall>j. int (surf_h surface) \<le> 2 ^ j \<longrightarrow> kh \<le> j" by blast
  have w: "tex_rw t = 2 ^ kw" "tex_w t \<le> 2 ^ kw" "\<forall>j. tex_w t \<le> 2 ^ j \<longrightarrow> kw \<le> j"
    using t(2,4) kw by (simp_all add: real_le_pow2_iff)
  have h: "tex_rh t = 2 ^ kh" "tex_h t \<le> 2 ^ kh" "\<forall>j. tex_h t \<le> 2 ^ j \<longrightarrow> kh \<le> j"
    using t(3,5) kh by (simp_all add: real_le_pow2_iff)
  have e: "surf_w surface = 5 \<longrightarrow> tex_rw t = 8" "surf_h surface = 5 \<longrightarrow> tex_rh t = 8"
    "surf_w surface = 16 \<longrightarrow> tex_rw t = 16" "surf_h surface = 16 \<longrightarrow> tex_rh t = 16"
    using p t(4,5) by (auto simp: gl_pot_5 gl_pot_16)
  from t(1,2,3) w h e
  show "\<exists>t kw kh. store st' a = Some t
           \<and> tex_w t = real (surf_w surface) \<and> tex_h t = real (surf_h surface)
           \<and> tex_rw t = 2 ^ kw \<and> tex_w t \<le> 2 ^ kw \<and> (\<forall>j. tex_w t \<le> 2 ^ j \<longrightarrow> kw \<le> j)
           \<and> tex_rh t = 2 ^ kh \<and> tex_h t \<le> 2 ^ kh \<and> (\<forall>j. tex_h t \<le> 2 ^ j \<longrightarrow> kh \<le> j)
           \<and> (surf_w surface = 5 \<longrightarrow> tex_rw t = 8) \<and> (surf_h surface = 5 \<longrightarrow> tex_rh t = 8)
           \<and> (surf_w surface = 16 \<longrightarrow> tex_rw t = 16)
           \<and> (surf_h surface = 16 \<longrightarrow> tex_rh t = 16)"
    by blast
qed

theorem C6_power_of_two_padding_witness:
  "SDL_CreateRGBSurface_ok demo_ext \<and> SDL_FillRect_ok demo_ext
   \<and> surf_w (demo_surface 5 5) \<le> 2 ^ 30 \<and> surf_h (demo_surface 5 5) \<le> 2 ^ 30
   \<and> surf_w (demo_surface 16 16) \<le> 2 ^ 30 \<and> surf_h (demo_surface 16 16) \<le> 2 ^ 30
   \<and> (\<exists>a st' t. gl_loadImage demo_ext (demo_surface 5 5) demo_state = Inr (a, st')
         \<and> store st' a = Some t \<and> tex_w t = 5 \<and> tex_h t = 5 \<and> tex_rw t = 8 \<and> tex_rh t = 8)
   \<and> (\<exists>a st' t. gl_loadImage demo_ext (demo_surface 16 16) demo_state = Inr (a, st')
         \<and> store st' a = Some t \<and> tex_w t = 16 \<and> tex_h t = 16
         \<and> tex_rw t = 16 \<and> tex_rh t = 16)"
proof -
  have ok: "SDL_CreateRGBSurface_ok demo_ext \<and> SDL_FillRect_ok demo_ext"
    by (simp add: demo_ext_def)
  have s5: "surf_w (demo_surface 5 5) = 5" "surf_h (demo_surface 5 5) = 5"
    and s16: "surf_w (demo_surface 16 16) = 16" "surf_h (demo_surface 16 16) = 16"
    by (simp_all add: demo_surface_def)
  have b: "surf_w (demo_surface 5 5) \<le> 2 ^ 30 \<and> surf_h (demo_surface 5 5) \<le> 2 ^ 30"
    "surf_w (demo_surface 16 16) \<le> 2 ^ 30 \<and> surf_h (demo_surface 16 16) \<le> 2 ^ 30"
    by (simp_all add: s5 s16)
  note five = C6_power_of_two_padding [of demo_ext "demo_surface 5 5" demo_state]
  note sixteen = C6_power_of_two_padding [of demo_ext "demo_surface 16 16" demo_state]
  from five ok b(1) obtain a st'
    where l5: "gl_loadImage demo_ext (demo_surface 5 5) demo_state = Inr (a, st')" by blast
  with five obtain t where
    "store st' a = Some t" "tex_w t = real (surf_w (demo_surface 5 5))"
    "tex_h t = real (surf_h (demo_surface 5 5))" "tex_rw t = 8" "tex_rh t = 8"
    using s5 by blast
  with l5 have r5: "\<exists>a st' t. gl_loadImage demo_ext (demo_surface 5 5) demo_state = Inr (a, st')
         \<and> store st' a = Some t \<and> tex_w t = 5 \<and> tex_h t = 5 \<and> tex_rw t = 8 \<and> tex_rh t = 8"
    using s5 by auto
  from sixteen ok b(2) obtain a' st''
    where l16: "gl_loadImage demo_ext (demo_surface 16 16) demo_state = Inr (a', st'')" by blast
  with sixteen obtain t' where
    "store st'' a' = Some t'" "tex_w t' = real (surf_w (demo_surface 16 16))"
    "tex_h t' = real (surf_h (demo_surface 16 16))" "tex_rw t' = 16" "tex_rh t' = 16"
    using s16 by blast
  with l16 have r16: "\<exists>a st' t. gl_loadImage demo_ext (demo_surface 16 16) demo_state = Inr (a, st')
         \<and> store st' a = Some t \<and> tex_w t = 16 \<and> tex_h t = 16
         \<and> tex_rw t = 16 \<and> tex_rh t = 16"
    using s16 by auto
  from ok b r5 r16 show ?thesis by blast
qed

section \<open>Viewport scaling\<close>

text \<open>Whatever the screen, each per-axis scale factor is the quotient of the native by
  the logical size.\<close>

lemma viewport_scale_consistent:
  assumes "gl_init_viewport g0 = Inr v" and "scr_w v \<noteq> 0" and "scr_h v \<noteq> 0"
  shows "real_of_int (scr_w v) * scr_wscale v = real_of_int (scr_nw v)
         \<and> real_of_int (scr_h v) * scr_hscale v = real_of_int (scr_nh v)"
  using assms
  by (auto simp: gl_init_viewport_def Let_def split: if_splits)

text \<open>C2. On a raw screen of 800 by 600 the viewport set-up leaves the scale factor 1
  and the native size equal to the logical size. On a raw screen of 400 by 600 it
  yields the scale 400/600, the logical size 600 by 900 (= 600*600/400), the native
  size 400 by 400 (= 600*400/600), and on both axes the logical size times the
  per-axis scale factor is the native size.\<close>

theorem C2_viewport_scaling:
  "(\<exists>v. gl_init_viewport (g\<lparr>scr_w := 800, scr_h := 600\<rparr>) = Inr v
       \<and> scr_scale v = 1 \<and> scr_w v = 800 \<and> scr_h v = 600
       \<and> scr_nw v = scr_w v \<and> scr_nh v = scr_h v
       \<and> real_of_int (scr_w v) * scr_wscale v = real_of_int (scr_nw v)
       \<and> real_of_int (scr_h v) * scr_hscale v = real_of_int (scr_nh v))
   \<and> (\<exists>v. gl_init_viewport (g\<lparr>scr_w := 400, scr_h := 600\<rparr>) = Inr v
       \<and> scr_scale v = 400 / 600 \<and> scr_w v = 600 \<and> scr_h v = 900
       \<and> scr_rw v = 400 \<and> scr_rh v = 600
       \<and> scr_nw v = 400 \<and> scr_nh v = 400
       \<and> real_of_int (scr_w v) * scr_wscale v = real_of_int (scr_nw v)
       \<and> real_of_int (scr_h v) * scr_hscale v = real_of_int (scr_nh v))"
  by (simp add: gl_init_viewport_def c_div_def Let_def)

section \<open>C arithmetic on values that are not negative\<close>




section \<open>Blitting\<close>

text \<open>C7. For every texture and every cell \<open>(sx, sy)\<close>, \<open>gl_blitStaticSprite\<close> and (when the
  sprite is not culled) \<open>gl_blitSprite\<close> issue one quad whose texel rectangle starts at
  \<open>tx = sw * sx / rw\<close>, \<open>ty = sh * (sheet rows - sy - 1) / rh\<close> and is \<open>sw / rw\<close> wide and
  \<open>sh / rh\<close> high, and whose four vertices are the corners of
  \<open>[position, position + (sw, sh)]\<close> in raw space.\<close>

theorem C7_texel_addressing:
  assumes "deref st sprite = Inr t"
  shows "let tx = tex_sw t * real_of_int sx / tex_rw t;
             ty = tex_sh t * (tex_sy t - real_of_int sy - 1) / tex_rh t;
             tw = tex_sw t / tex_rw t;
             th = tex_sh t / tex_rh t;
             quad = (\<lambda>x y.
               [GlEnable_TEXTURE_2D, GlBindTexture (tex_texture t), GlBegin_QUADS, colour_call c,
                GlTexCoord2d tx ty, GlVertex2d x y,
                GlTexCoord2d (tx + tw) ty, GlVertex2d (x + tex_sw t) y,
                GlTexCoord2d (tx + tw) (ty + th), GlVertex2d (x + tex_sw t) (y + tex_sh t),
                GlTexCoord2d tx (ty + th), GlVertex2d x (y + tex_sh t),
                GlEnd, GlDisable_TEXTURE_2D, GlGetError])
         in gl_blitStaticSprite sprite bx by sx sy c st =
              Inr (st\<lparr>trace := trace st
                     @ quad (bx - real_of_int (scr_w (gl_screen st)) / 2)
                            (by - real_of_int (scr_h (gl_screen st)) / 2)\<rparr>)
            \<and> (\<forall>cam. gl_camera st = Some cam \<longrightarrow>
                 (let x = bx - vec_x cam - tex_sw t / 2 + gui_xoff st;
                      y = by - vec_y cam - tex_sh t / 2 + gui_yoff st
                  in \<not> (\<bar>x\<bar> > real_of_int (c_div (scr_w (gl_screen st)) 2) + tex_sw t
                         \<or> \<bar>y\<bar> > real_of_int (c_div (scr_h (gl_screen st)) 2) + tex_sh t) \<longrightarrow>
                     gl_blitSprite sprite bx by sx sy c st =
                       Inr (st\<lparr>trace := trace st @ quad x y\<rparr>)))"
  using assms
  by (simp add: gl_blitStaticSprite_def gl_blitSprite_def gl_blitTexture_def quad_calls_def
      emit_def Let_def)

theorem C7_texel_addressing_witness:
  "deref odd_screen_state (Some 0) = Inr demo_texture
   \<and> gl_camera odd_screen_state = Some \<lparr>vec_x = 0, vec_y = 0\<rparr>
   \<and> gl_blitStaticSprite (Some 0) 100 50 0 0 None odd_screen_state =
       Inr (odd_screen_state\<lparr>trace :=
         [GlEnable_TEXTURE_2D, GlBindTexture 1, GlBegin_QUADS, GlColor4d 1 1 1 1,
          GlTexCoord2d 0 0, GlVertex2d (- 601 / 2) (- 250),
          GlTexCoord2d (5 / 8) 0, GlVertex2d (- 581 / 2) (- 250),
          GlTexCoord2d (5 / 8) (5 / 8), GlVertex2d (- 581 / 2) (- 240),
          GlTexCoord2d 0 (5 / 8), GlVertex2d (- 601 / 2) (- 240),
          GlEnd, GlDisable_TEXTURE_2D, GlGetError]\<rparr>)
   \<and> gl_blitSprite (Some 0) 100 50 0 0 None odd_screen_state =
       Inr (odd_screen_state\<lparr>trace :=
         [GlEnable_TEXTURE_2D, GlBindTexture 1, GlBegin_QUADS, GlColor4d 1 1 1 1,
          GlTexCoord2d 0 0, GlVertex2d 95 45,
          GlTexCoord2d (5 / 8) 0, GlVertex2d 105 45,
          GlTexCoord2d (5 / 8) (5 / 8), GlVertex2d 105 55,
          GlTexCoord2d 0 (5 / 8), GlVertex2d 95 55,
          GlEnd, GlDisable_TEXTURE_2D, GlGetError]\<rparr>)"
proof -
  have d: "deref odd_screen_state (Some 0) = Inr demo_texture"
    by (simp add: deref_def odd_screen_state_def)
  have cam: "gl_camera odd_screen_state = Some \<lparr>vec_x = 0, vec_y = 0\<rparr>"
    by (simp add: odd_screen_state_def demo_state_def)
  show ?thesis
    using C7_texel_addressing [OF d, of 0 0 None 100 50] d cam
    by (simp add: Let_def demo_texture_def colour_call_def c_div_def
        odd_screen_state_def demo_state_def demo_screen_def)
qed

text \<open>What the bounds test of \<open>gl_blitSprite\<close> does: with
  \<open>x = bx - camera.x - sw/2 + gui_xoff\<close> and \<open>y\<close> likewise, the blit returns with the state
  unchanged when \<open>|x| > SCREEN_W div 2 + sw\<close> or \<open>|y| > SCREEN_H div 2 + sh\<close>, the halves
  being integer divisions; every other blit issues the calls of one textured quad.\<close>

lemma gl_blitSprite_bounds_test:
  assumes "deref st sprite = Inr t" and "gl_camera st = Some cam"
  shows "let x = bx - vec_x cam - tex_sw t / 2 + gui_xoff st;
             y = by - vec_y cam - tex_sh t / 2 + gui_yoff st
         in if \<bar>x\<bar> > real_of_int (c_div (scr_w (gl_screen st)) 2) + tex_sw t
               \<or> \<bar>y\<bar> > real_of_int (c_div (scr_h (gl_screen st)) 2) + tex_sh t
            then gl_blitSprite sprite bx by sx sy c st = Inr st
            else gl_blitSprite sprite bx by sx sy c st =
                   Inr (st\<lparr>trace := trace st @
                     quad_calls (tex_texture t) c x y (tex_sw t) (tex_sh t)
                       (tex_sw t * real_of_int sx / tex_rw t)
                       (tex_sh t * (tex_sy t - real_of_int sy - 1) / tex_rh t)
                       (tex_sw t / tex_rw t) (tex_sh t / tex_rh t)\<rparr>)"
  using assms
  by (simp add: gl_blitSprite_def gl_blitTexture_def emit_def Let_def)

text \<open>C4, at a failing input. On a screen 801 wide and 600 high, with the camera at the
  origin and no GUI offset, a 10 by 10 sprite blitted at \<open>bx = 415.5\<close>, \<open>by = 5\<close>
  resolves to the raw position \<open>x = 410.5\<close>, \<open>y = 0\<close>. Neither lies beyond the claimed
  bounds: \<open>|x| \<le> 801/2 + 10 = 410.5\<close> and \<open>|y| \<le> 600/2 + 10\<close>, so the claim has one
  quad drawn. The code computes \<^verbatim>\<open>SCREEN_W/2\<close> on ints, compares with \<open>400 + 10\<close> and
  returns without any call: the state is unchanged.\<close>

theorem C4_culling_odd_width:
  "\<bar>831 / 2 - vec_x \<lparr>vec_x = 0, vec_y = 0\<rparr> - tex_sw demo_texture / 2
       + gui_xoff odd_screen_state\<bar>
     \<le> real_of_int (scr_w (gl_screen odd_screen_state)) / 2 + tex_sw demo_texture
   \<and> \<bar>5 - vec_y \<lparr>vec_x = 0, vec_y = 0\<rparr> - tex_sh demo_texture / 2
       + gui_yoff odd_screen_state\<bar>
     \<le> real_of_int (scr_h (gl_screen odd_screen_state)) / 2 + tex_sh demo_texture
   \<and> scr_w (gl_screen odd_screen_state) = 801
   \<and> deref odd_screen_state (Some 0) = Inr demo_texture
   \<and> gl_camera odd_screen_state = Some \<lparr>vec_x = 0, vec_y = 0\<rparr>
   \<and> gl_blitSprite (Some 0) (831 / 2) 5 0 0 None odd_screen_state = Inr odd_screen_state"
  by (simp add: gl_blitSprite_def deref_def Let_def c_div_def demo_texture_def
      odd_screen_state_def demo_state_def demo_screen_def)

section \<open>The transparency map\<close>




lemma length_set_opaque [simp]: "length (set_opaque k tr t) = length t"
  by (simp add: set_opaque_def)













text \<open>A texture loaded with the flag \<open>OPENGL_TEX_MAPTRANS\<close> carries the map of the
  flipped surface it was loaded from, and that surface's width and height.\<close>

lemma gl_loadNewImage_trans:
  assumes "gl_loadNewImage ext path flags st = Inr (Some a, st')"
    and "flags AND OPENGL_TEX_MAPTRANS \<noteq> 0"
  shows "\<exists>surface m t. SDL_MapTrans (big_endian ext) surface = Some m
           \<and> store st' a = Some t \<and> tex_trans t = Some m \<and> tex_name t = Some path
           \<and> tex_w t = real (surf_w surface) \<and> tex_h t = real (surf_h surface)"
proof -
  from assms obtain surface m st0 t
    where mp: "SDL_MapTrans (big_endian ext) surface = Some m"
      and l: "gl_loadImage ext surface st = Inr (a, st0)"
      and t: "store st0 a = Some t"
      and s: "st' = st0\<lparr>store := (store st0)(a \<mapsto> t\<lparr>tex_trans := Some m, tex_name := Some path\<rparr>)\<rparr>"
    by (auto simp: gl_loadNewImage_def emit_def split: option.splits sum.splits prod.splits)
  from gl_loadImage_padding [OF l] t
  have "tex_w t = real (surf_w surface)" "tex_h t = real (surf_h surface)" by auto
  with mp s show ?thesis by auto
qed




section \<open>The texture cache\<close>

lemma newImage_find_append:
  assumes "newImage_find st path l = Inr None"
  shows "newImage_find st path (l @ l') =
           (case newImage_find st path l' of Inl e \<Rightarrow> Inl e
            | Inr None \<Rightarrow> Inr None
            | Inr (Some (r, x)) \<Rightarrow> Inr (Some (l @ r, x)))"
  using assms
proof (induction l)
  case Nil
  show ?case by (simp split: sum.splits option.splits)
next
  case (Cons cur rest)
  from Cons.prems obtain t nm where t: "deref st (node_tex cur) = Inr t"
    "tex_name t = Some nm" "path \<noteq> nm" and r: "newImage_find st path rest = Inr None"
    by (auto split: sum.splits option.splits if_splits)
  from Cons.IH [OF r] t show ?case
    by (simp split: sum.splits option.splits)
qed


lemma freeTexture_find_absent:
  assumes "\<And>n. n \<in> set l \<Longrightarrow> node_tex n \<noteq> Some a"
  shows "freeTexture_find a l = None"
  using assms by (induction l) auto




lemma node_name_deref:
  assumes "node_name st n = Some nm"
  shows "\<exists>t. deref st (node_tex n) = Inr t \<and> tex_name t = Some nm"
  using assms by (auto simp: node_name_def deref_def split: option.splits)

text \<open>The scan passes over nodes that carry other names.\<close>

lemma newImage_find_miss:
  assumes "list_all (\<lambda>n. node_name st n \<noteq> None \<and> node_name st n \<noteq> Some path) l"
  shows "newImage_find st path l = Inr None"
  using assms
proof (induction l)
  case Nil
  show ?case by simp
next
  case (Cons cur rest)
  from Cons.prems obtain nm where nm: "node_name st cur = Some nm" "nm \<noteq> path" by auto
  from node_name_deref [OF nm(1)] obtain t
    where t: "deref st (node_tex cur) = Inr t" "tex_name t = Some nm" by blast
  from Cons.prems have "newImage_find st path rest = Inr None" by (intro Cons.IH) simp
  with t nm(2) show ?case by simp
qed

text \<open>It stops at the first node that carries the name, wherever it stands.\<close>

lemma newImage_find_hit:
  assumes "list_all (\<lambda>n. node_name st n \<noteq> None \<and> node_name st n \<noteq> Some path) l1"
    and "node_name st n = Some path"
  shows "newImage_find st path (l1 @ n # l2) =
           Inr (Some (l1 @ n\<lparr>node_used := node_used n + 1\<rparr> # l2, node_tex n))"
proof -
  from node_name_deref [OF assms(2)] obtain t
    where t: "deref st (node_tex n) = Inr t" "tex_name t = Some path" by blast
  then have "newImage_find st path (n # l2) =
               Inr (Some (n\<lparr>node_used := node_used n + 1\<rparr> # l2, node_tex n))"
    by simp
  with newImage_find_append [OF newImage_find_miss [OF assms(1)], of "n # l2"]
  show ?thesis by simp
qed

lemma acquire_cached:
  assumes l: "texture_list st = l1 @ n # l2"
    and l1: "list_all (\<lambda>n. node_name st n \<noteq> None \<and> node_name st n \<noteq> Some path) l1"
    and n: "node_name st n = Some path"
  shows "gl_newImage ext path flags st =
           Inr (node_tex n,
                st\<lparr>texture_list := l1 @ n\<lparr>node_used := node_used n + 1\<rparr> # l2\<rparr>)"
  using newImage_find_hit [OF l1 n, of l2] by (simp add: gl_newImage_def l)



text \<open>A pointer to a freed structure that no node holds: the last part of
  \<open>gl_freeTexture\<close> reads the freed structure.\<close>

lemma release_freed:
  assumes "freeTexture_find a (texture_list st) = None"
    and "store st a = None" and "a < next_addr st"
  shows "gl_freeTexture (Some a) st = Inl Use_after_free"
  using assms by (simp add: gl_freeTexture_def deref_def)




lemma first_acquire:
  "gl_newImage demo_ext ''a.png'' 0 cached_state = Inr (Some 1, acquired_state)"
  by (simp add: gl_newImage_def gl_loadNewImage_def SDL_VFlipSurface_def deref_def
      gl_loadImage_def gl_loadSurface_def gl_prepareSurface_def gl_pot_5 Let_def
      emit_def demo_ext_def demo_surface_def demo_state_def demo_screen_def
      cached_state_def acquired_state_def other_texture_def loaded_texture_def fun_upd_twist)


lemma last_release:
  "gl_freeTexture (Some 1) acquired_state = Inr released_state"
  by (simp add: gl_freeTexture_def deref_def free_calls_def emit_def
      acquired_state_def released_state_def loaded_texture_def)


subsection \<open>Failed loads\<close>

text \<open>Whatever \<open>gl_loadNewImage\<close> returns, \<open>gl_newImage\<close> links the new node: after a
  failed load the list ends with a node whose texture is \<^verbatim>\<open>NULL\<close>.\<close>

lemma gl_newImage_failed_load:
  assumes "newImage_find st path (texture_list st) = Inr None"
    and "gl_loadNewImage ext path flags st = Inr (None, st')"
  shows "gl_newImage ext path flags st =
           Inr (None, st'\<lparr>texture_list := texture_list st' @ [\<lparr>node_tex = None, node_used = 1\<rparr>]\<rparr>)"
  using assms by (simp add: gl_newImage_def)

lemma gl_loadNewImage_asset_missing:
  assumes "ndata_read ext path = None"
  shows "gl_loadNewImage ext path flags st =
           Inr (None, st\<lparr>trace := trace st @ [Log Err_loading_surface_from_ndata]\<rparr>)"
  using assms by (simp add: gl_loadNewImage_def emit_def)

lemma gl_loadNewImage_decode_failure:
  assumes "ndata_read ext path = Some buf" "IMG_Load_RW ext buf = None"
  shows "gl_loadNewImage ext path flags st =
           Inr (None, st\<lparr>trace := trace st @ [Log (Err_could_not_be_opened path)]\<rparr>)"
  using assms by (simp add: gl_loadNewImage_def emit_def)

text \<open>C8, at a failing input. With an empty list and an asset that the reader does not
  find, \<open>gl_newImage\<close> returns \<^verbatim>\<open>NULL\<close> and logs the error, but the list is no longer
  empty: it holds a node with a \<^verbatim>\<open>NULL\<close> texture and count 1. The next \<open>gl_newImage\<close>,
  of any path, dereferences that \<^verbatim>\<open>NULL\<close> in its scan.\<close>

theorem C8_failed_load_inserts_node:
  "gl_newImage demo_ext ''missing.png'' 0 demo_state = Inr (None, demo_failed)
   \<and> texture_list demo_state = []
   \<and> texture_list demo_failed = [\<lparr>node_tex = None, node_used = 1\<rparr>]
   \<and> gl_newImage demo_ext ''a.png'' 0 demo_failed = Inl Null_dereference"
  by (simp add: gl_newImage_def gl_loadNewImage_def emit_def deref_def demo_ext_def
      demo_state_def demo_failed_def)

subsection \<open>Release after the last release\<close>

text \<open>C9, at a failing input. With \<open>b.png\<close> cached, \<open>a.png\<close> is acquired once and released
  once: its entry is removed and its structure freed. A further \<open>gl_freeTexture\<close> of the
  same pointer finds no node, and then reads \<^verbatim>\<open>texture->name\<close>, \<^verbatim>\<open>texture->texture\<close> and
  \<^verbatim>\<open>texture->trans\<close> of the freed structure in order to warn and to free it once more:
  the call does not end with a warning and an intact state, it uses freed memory.\<close>

theorem C9_second_release_reads_freed:
  "gl_newImage demo_ext ''a.png'' 0 cached_state = Inr (Some 1, acquired_state)
   \<and> gl_freeTexture (Some 1) acquired_state = Inr released_state
   \<and> texture_list released_state = [\<lparr>node_tex = Some 0, node_used = 1\<rparr>]
   \<and> store released_state 1 = None
   \<and> Free_texture 1 \<in> set (trace released_state)
   \<and> gl_freeTexture (Some 1) released_state = Inl Use_after_free"
proof -
  have "texture_list released_state = [\<lparr>node_tex = Some 0, node_used = 1\<rparr>]"
    "store released_state 1 = None" "Free_texture 1 \<in> set (trace released_state)"
    "next_addr released_state = 2"
    by (simp_all add: released_state_def acquired_state_def)
  moreover from this have "gl_freeTexture (Some 1) released_state = Inl Use_after_free"
    by (intro release_freed) simp_all
  ultimately show ?thesis using first_acquire last_release by simp
qed

subsection \<open>Sprite sheets on a cached texture\<close>

text \<open>C10. Let the first node that carries the name \<open>path\<close> point to the texture at \<open>a\<close>.
  Then \<open>gl_newSprite\<close> with columns \<open>sx\<close> and rows \<open>sy\<close>, both not 0, returns that pointer
  and writes the columns, the rows and the cell size \<open>w / sx\<close>, \<open>h / sy\<close> into the
  texture in place; whoever holds the pointer reads the new geometry. The GPU handle,
  the logical and physical sizes, the name and the transparency map of the texture,
  every other cell of the store and the trace are unchanged (the entry's count goes up
  as for any acquisition).\<close>

theorem C10_sprite_geometry_overwrite:
  assumes "texture_list st = l1 @ n # l2"
    and "list_all (\<lambda>m. node_name st m \<noteq> None \<and> node_name st m \<noteq> Some path) l1"
    and "node_tex n = Some a" and "store st a = Some t" and "tex_name t = Some path"
    and "sx \<noteq> 0" and "sy \<noteq> 0"
  shows "\<exists>st' t'. gl_newSprite ext path sx sy flags st = Inr (Some a, st')
           \<and> st' = st\<lparr>texture_list := l1 @ n\<lparr>node_used := node_used n + 1\<rparr> # l2,
                       store := (store st)(a \<mapsto> t')\<rparr>
           \<and> t' = t\<lparr>tex_sx := real_of_int sx, tex_sy := real_of_int sy,
                    tex_sw := tex_w t / real_of_int sx, tex_sh := tex_h t / real_of_int sy\<rparr>
           \<and> deref st' (Some a) = Inr t'
           \<and> tex_texture t' = tex_texture t \<and> tex_w t' = tex_w t \<and> tex_h t' = tex_h t
           \<and> tex_rw t' = tex_rw t \<and> tex_rh t' = tex_rh t
           \<and> tex_name t' = tex_name t \<and> tex_trans t' = tex_trans t
           \<and> (\<forall>b. b \<noteq> a \<longrightarrow> store st' b = store st b)
           \<and> trace st' = trace st"
proof -
  have nm: "node_name st n = Some path"
    using assms(3,4,5) by (simp add: node_name_def)
  have acq: "gl_newImage ext path flags st =
           Inr (Some a, st\<lparr>texture_list := l1 @ n\<lparr>node_used := node_used n + 1\<rparr> # l2\<rparr>)"
    using acquire_cached [OF assms(1,2) nm, of ext flags] assms(3) by simp
  show ?thesis
    using assms(4,6,7) by (simp add: gl_newSprite_def acq deref_def Let_def)
qed

theorem C10_sprite_geometry_overwrite_witness:
  "texture_list acquired_state =
     [\<lparr>node_tex = Some 0, node_used = 1\<rparr>] @ \<lparr>node_tex = Some 1, node_used = 1\<rparr> # []
   \<and> list_all (\<lambda>m. node_name acquired_state m \<noteq> None
                    \<and> node_name acquired_state m \<noteq> Some ''a.png'')
        [\<lparr>node_tex = Some 0, node_used = 1\<rparr>]
   \<and> store acquired_state 1 = Some loaded_texture
   \<and> tex_name loaded_texture = Some ''a.png''
   \<and> (5::int) \<noteq> 0 \<and> (1::int) \<noteq> 0
   \<and> gl_newSprite demo_ext ''a.png'' 5 1 0 acquired_state =
       Inr (Some 1, acquired_state\<lparr>
         texture_list := [\<lparr>node_tex = Some 0, node_used = 1\<rparr>, \<lparr>node_tex = Some 1, node_used = 2\<rparr>],
         store := (\<lambda>a. None)(0 \<mapsto> other_texture,
           1 \<mapsto> \<lparr>tex_w = 5, tex_h = 5, tex_rw = 8, tex_rh = 8, tex_sx = 5, tex_sy = 1,
                 tex_sw = 1, tex_sh = 5, tex_texture = 2, tex_trans = None,
                 tex_name = Some ''a.png''\<rparr>)\<rparr>)"
proof -
  have l: "texture_list acquired_state =
     [\<lparr>node_tex = Some 0, node_used = 1\<rparr>] @ \<lparr>node_tex = Some 1, node_used = 1\<rparr> # []"
    by (simp add: acquired_state_def)
  have l1: "list_all (\<lambda>m. node_name acquired_state m \<noteq> None
                    \<and> node_name acquired_state m \<noteq> Some ''a.png'')
        [\<lparr>node_tex = Some 0, node_used = 1\<rparr>]"
    by (simp add: node_name_def acquired_state_def other_texture_def)
  have t: "store acquired_state 1 = Some loaded_texture" by (simp add: acquired_state_def)
  have nm: "tex_name loaded_texture = Some ''a.png''" by (simp add: loaded_texture_def)
  have nz: "(5::int) \<noteq> 0" "(1::int) \<noteq> 0" by simp_all
  have n: "node_tex \<lparr>node_tex = Some 1, node_used = 1\<rparr> = Some 1" by simp
  from C10_sprite_geometry_overwrite [OF l l1 n t nm nz, where ext = demo_ext and flags = 0]
  have "gl_newSprite demo_ext ''a.png'' 5 1 0 acquired_state =
       Inr (Some 1, acquired_state\<lparr>
         texture_list := [\<lparr>node_tex = Some 0, node_used = 1\<rparr>, \<lparr>node_tex = Some 1, node_used = 2\<rparr>],
         store := (\<lambda>a. None)(0 \<mapsto> other_texture,
           1 \<mapsto> \<lparr>tex_w = 5, tex_h = 5, tex_rw = 8, tex_rh = 8, tex_sx = 5, tex_sy = 1,
                 tex_sw = 1, tex_sh = 5, tex_texture = 2, tex_trans = None,
                 tex_name = Some ''a.png''\<rparr>)\<rparr>)"
    by (auto simp: acquired_state_def loaded_texture_def)
  with l l1 t nm show ?thesis by simp
qed

end
